theory Spec2Isabelle
  imports Complex_Main
begin

section \<open>Breath Bubbles: the canvas particle field of assets/js/breathbubbles.js\<close>

text \<open>
  The class \<open>BreathBubbles\<close> owns a list of bubbles, moves them once per animation
  frame and draws them on a canvas. JavaScript numbers are modelled as real numbers:
  rounding, overflow and the special values of IEEE doubles are outside the model, with
  one exception that is written out where it arises: a division by zero, which in
  JavaScript gives a non-finite value, is a separate branch and never HOL's \<open>a / 0 = 0\<close>.

  The host supplies three things the code reads: \<open>Math.random()\<close>, modelled as a fixed
  sequence \<open>g :: nat \<Rightarrow> real\<close> of which the field remembers how many values it has
  drawn; \<open>performance.now()\<close>, passed to each operation as \<open>now\<close>; and the bounding
  rectangle of the canvas, passed to the operations that ask for it.
\<close>

subsection \<open>Data\<close>

text \<open>The option object of the constructor (lines 9--21), after the defaults are merged.\<close>

record options =
  bubbleCount :: real
  baseHue :: real
  hueRange :: real
  minRadius :: real
  maxRadius :: real
  floatSpeed :: "real \<times> real"
  wobbleStrength :: real
  breathingPeriod :: real
  connectionDistance :: real
  interactiveForce :: real
  parallax :: real

text \<open>One property of the \<open>options\<close> argument given by the caller.\<close>

datatype option_entry =
    BubbleCount real
  | BaseHue real
  | HueRange real
  | MinRadius real
  | MaxRadius real
  | FloatSpeed real real
  | WobbleStrength real
  | BreathingPeriod real
  | ConnectionDistance real
  | InteractiveForce real
  | Parallax real

text \<open>The object literal returned by \<open>makeBubble\<close> (lines 66--75).\<close>

record bubble =
  x :: real
  y :: real
  r :: real
  baseR :: real
  hue :: real
  vy :: real
  vx :: real
  wobbleSeed :: real

text \<open>
  \<open>this.mouse\<close> (line 25). Its fields \<open>x\<close> and \<open>y\<close> are named \<open>mouse_x\<close> and
  \<open>mouse_y\<close> here, to keep them apart from the fields of a bubble.
\<close>

record mouse_state =
  mouse_x :: real
  mouse_y :: real
  active :: bool

text \<open>
  The fields of a \<open>BreathBubbles\<close> object that the code reads or writes, with the pixel
  size of its canvas and the number of \<open>Math.random()\<close> values drawn so far.
\<close>

record BreathBubbles =
  dpr :: real
  options :: options
  bubbles :: "bubble list"
  t0 :: real
  mouse :: mouse_state
  canvas_width :: real
  canvas_height :: real
  rand_pos :: nat

text \<open>What a frame puts on the canvas, in drawing order.\<close>

datatype draw =
    ClearRect real real real real
      \<comment> \<open>\<open>clearRect(x, y, w, h)\<close>\<close>
  | StrokeLine real real real real real real real
      \<comment> \<open>line width, hue, alpha, and the two end points of a connection\<close>
  | FillCircle real real real real
      \<comment> \<open>hue, centre and radius of a gradient-filled bubble\<close>
  | StrokeCircle real real real real real
      \<comment> \<open>line width, hue, centre and radius of the highlight ring\<close>

text \<open>
  The exceptions of the Canvas 2D interface that the drawing calls of \<open>frame\<close> can raise:
  \<open>createRadialGradient\<close> raises \<open>TypeError\<close> for an argument that is not finite and
  \<open>IndexSizeError\<close> for a negative radius, \<open>arc\<close> raises \<open>IndexSizeError\<close> for a
  negative radius.
\<close>

datatype error = TypeError | IndexSizeError

subsection \<open>Construction\<close>

text \<open>The defaults of lines 10--20.\<close>

definition default_options :: options where
  "default_options =
     \<lparr>bubbleCount = 42, baseHue = 190, hueRange = 40, minRadius = 14, maxRadius = 64,
      floatSpeed = (12 / 100, 55 / 100), wobbleStrength = 55 / 100, breathingPeriod = 6400,
      connectionDistance = 148, interactiveForce = 12 / 100, parallax = 6 / 100\<rparr>"

fun assign_entry :: "option_entry \<Rightarrow> options \<Rightarrow> options" where
  "assign_entry (BubbleCount v) opts = opts\<lparr>bubbleCount := v\<rparr>"
| "assign_entry (BaseHue v) opts = opts\<lparr>baseHue := v\<rparr>"
| "assign_entry (HueRange v) opts = opts\<lparr>hueRange := v\<rparr>"
| "assign_entry (MinRadius v) opts = opts\<lparr>minRadius := v\<rparr>"
| "assign_entry (MaxRadius v) opts = opts\<lparr>maxRadius := v\<rparr>"
| "assign_entry (FloatSpeed lo hi) opts = opts\<lparr>floatSpeed := (lo, hi)\<rparr>"
| "assign_entry (WobbleStrength v) opts = opts\<lparr>wobbleStrength := v\<rparr>"
| "assign_entry (BreathingPeriod v) opts = opts\<lparr>breathingPeriod := v\<rparr>"
| "assign_entry (ConnectionDistance v) opts = opts\<lparr>connectionDistance := v\<rparr>"
| "assign_entry (InteractiveForce v) opts = opts\<lparr>interactiveForce := v\<rparr>"
| "assign_entry (Parallax v) opts = opts\<lparr>parallax := v\<rparr>"

text \<open>
  \<open>Object.assign(target, source)\<close> (line 9): every property of the source overwrites
  the target's, in the order the source lists them.
\<close>

definition Object_assign :: "options \<Rightarrow> option_entry list \<Rightarrow> options" where
  "Object_assign target source = fold assign_entry source target"

text \<open>
  \<open>window.devicePixelRatio || 1\<close> (line 8): an undefined ratio (\<open>None\<close>) and the
  ratio 0 are falsy and give 1.
\<close>

definition device_pixel_ratio :: "real option \<Rightarrow> real" where
  "device_pixel_ratio d = (case d of None \<Rightarrow> 1 | Some v \<Rightarrow> if v = 0 then 1 else v)"

text \<open>\<open>rand(min, max)\<close> (line 55), on the value \<open>u\<close> that \<open>Math.random()\<close> returned.\<close>

definition rand :: "real \<Rightarrow> real \<Rightarrow> real \<Rightarrow> real" where
  "rand u lo hi = u * (hi - lo) + lo"

text \<open>
  \<open>resize()\<close> (lines 49--53), on the width and height of the bounding rectangle. The
  conversion of \<open>canvas.width\<close> to an integer by the DOM is not modelled.
\<close>

definition resize :: "real \<Rightarrow> real \<Rightarrow> BreathBubbles \<Rightarrow> BreathBubbles" where
  "resize rect_width rect_height f =
     f\<lparr>canvas_width := rect_width * dpr f, canvas_height := rect_height * dpr f\<rparr>"

text \<open>
  \<open>makeBubble()\<close> (lines 64--76) draws seven random values: the radius first, then the
  fields of the literal in their order. It returns the bubble and the new count of
  values drawn.
\<close>

definition makeBubble :: "(nat \<Rightarrow> real) \<Rightarrow> BreathBubbles \<Rightarrow> bubble \<times> nat" where
  "makeBubble g f =
     (let opts = options f; n = rand_pos f;
          rad = rand (g n) (minRadius opts) (maxRadius opts)
      in (\<lparr>x = g (n + 1) * canvas_width f,
           y = g (n + 2) * canvas_height f,
           r = rad,
           baseR = rad,
           hue = baseHue opts + rand (g (n + 3)) (- hueRange opts / 2) (hueRange opts / 2),
           vy = - rand (g (n + 4)) (fst (floatSpeed opts)) (snd (floatSpeed opts)),
           vx = rand (g (n + 5)) (- (15 / 100)) (15 / 100),
           wobbleSeed = g (n + 6) * 1000\<rparr>,
          n + 7))"

text \<open>
  The loop of \<open>init()\<close> (lines 59--61), by the number of iterations left: each one
  pushes a new bubble at the end of the list.
\<close>

fun init_loop :: "(nat \<Rightarrow> real) \<Rightarrow> nat \<Rightarrow> BreathBubbles \<Rightarrow> BreathBubbles" where
  "init_loop g 0 f = f"
| "init_loop g (Suc k) f =
     (let (b, n) = makeBubble g f
      in init_loop g k (f\<lparr>bubbles := bubbles f @ [b], rand_pos := n\<rparr>))"

text \<open>
  \<open>init()\<close> (lines 57--62). The counter runs over 0, 1, 2, ... while it is below
  \<open>bubbleCount\<close>: that is \<open>\<lceil>bubbleCount\<rceil>\<close> iterations, and none when \<open>bubbleCount \<le> 0\<close>.
\<close>

definition init :: "(nat \<Rightarrow> real) \<Rightarrow> BreathBubbles \<Rightarrow> BreathBubbles" where
  "init g f = init_loop g (nat \<lceil>bubbleCount (options f)\<rceil>) (f\<lparr>bubbles := []\<rparr>)"

text \<open>
  The constructor (lines 5--33), given the random sequence, the host's device pixel
  ratio, the width and height of the canvas's bounding rectangle, the time and the
  caller's options. Registering the listeners and requesting the first frame change no
  field.
\<close>

definition new_BreathBubbles ::
  "(nat \<Rightarrow> real) \<Rightarrow> real option \<Rightarrow> real \<Rightarrow> real \<Rightarrow> real \<Rightarrow> option_entry list \<Rightarrow> BreathBubbles"
where
  "new_BreathBubbles g device_ratio rect_width rect_height now opts =
     init g (resize rect_width rect_height
       \<lparr>dpr = device_pixel_ratio device_ratio,
        options = Object_assign default_options opts,
        bubbles = [],
        t0 = now,
        mouse = \<lparr>mouse_x = 0, mouse_y = 0, active = False\<rparr>,
        canvas_width = 0,
        canvas_height = 0,
        rand_pos = 0\<rparr>)"

subsection \<open>The update of one frame\<close>

text \<open>
  The breathing factor of line 83. With \<open>breathingPeriod = 0\<close> the quotient
  \<open>t / breathingPeriod\<close> is not finite and \<open>Math.sin\<close> returns NaN: that is \<open>None\<close>.
\<close>

definition breath :: "real \<Rightarrow> real \<Rightarrow> real option" where
  "breath t period =
     (if period = 0 then None else Some ((sin ((t / period) * pi * 2) + 1) / 2))"

text \<open>\<open>Math.hypot(dx, dy)\<close>.\<close>

definition hypot :: "real \<Rightarrow> real \<Rightarrow> real" where
  "hypot dx dy = sqrt (dx * dx + dy * dy)"

text \<open>
  The body of the update loop (lines 87--113) is split into its five steps. Each takes
  the field \<open>f\<close> for the values it reads (options, canvas size, pointer, pixel ratio),
  the elapsed time \<open>t\<close> and the breathing factor \<open>br\<close> where the step uses them.
\<close>

text \<open>Breathing scale (lines 88--89).\<close>

definition breathe :: "real \<Rightarrow> bubble \<Rightarrow> bubble" where
  "breathe br b = (let scale = 82 / 100 + br * (36 / 100) in b\<lparr>r := baseR b * scale\<rparr>)"

text \<open>Movement (lines 92--93).\<close>

definition move :: "BreathBubbles \<Rightarrow> real \<Rightarrow> real \<Rightarrow> bubble \<Rightarrow> bubble" where
  "move f t br b =
     (let b1 = b\<lparr>y := y b + vy b * (6 / 10 + br * (8 / 10))\<rparr>
      in b1\<lparr>x := x b1 +
           (vx b1 + sin ((t + wobbleSeed b1) * (18 / 10000)) * wobbleStrength (options f))\<rparr>)"

text \<open>
  Wrap to the bottom when leaving the top (lines 96--99). The new horizontal position
  takes the next value of \<open>Math.random()\<close>.
\<close>

definition recycle ::
  "(nat \<Rightarrow> real) \<Rightarrow> BreathBubbles \<Rightarrow> bubble \<times> nat \<Rightarrow> bubble \<times> nat" where
  "recycle g f bn =
     (let (b, n) = bn
      in if y b + r b < 0
         then (b\<lparr>y := canvas_height f + r b * 2, x := g n * canvas_width f\<rparr>, Suc n)
         else (b, n))"

text \<open>Horizontal wrap (lines 100--101).\<close>

definition wrap :: "BreathBubbles \<Rightarrow> bubble \<Rightarrow> bubble" where
  "wrap f b =
     (if x b - r b > canvas_width f then b\<lparr>x := - r b\<rparr>
      else if x b + r b < 0 then b\<lparr>x := canvas_width f + r b\<rparr>
      else b)"

text \<open>Interaction with the pointer (lines 104--113).\<close>

definition interact :: "BreathBubbles \<Rightarrow> bubble \<Rightarrow> bubble" where
  "interact f b =
     (if active (mouse f) then
        (let dx = x b - mouse_x (mouse f);
             dy = y b - mouse_y (mouse f);
             dist = hypot dx dy
         in if dist < 180 * dpr f then
              (let force = (1 - dist / (180 * dpr f)) * interactiveForce (options f)
               in b\<lparr>x := x b + dx * force, y := y b + dy * force\<rparr>)
            else b)
      else b)"

text \<open>One iteration of the update loop: a bubble and the count of random values drawn.\<close>

definition frame_bubble ::
  "(nat \<Rightarrow> real) \<Rightarrow> BreathBubbles \<Rightarrow> real \<Rightarrow> real \<Rightarrow> bubble \<times> nat \<Rightarrow> bubble \<times> nat" where
  "frame_bubble g f t br bn =
     (let (b, n) = bn;
          (b', n') = recycle g f (move f t br (breathe br b), n)
      in (interact f (wrap f b'), n'))"

text \<open>The update loop (lines 86--114) over the bubbles in their order.\<close>

fun frame_bubbles ::
  "(nat \<Rightarrow> real) \<Rightarrow> BreathBubbles \<Rightarrow> real \<Rightarrow> real \<Rightarrow> bubble list \<Rightarrow> nat \<Rightarrow> bubble list \<times> nat"
where
  "frame_bubbles g f t br [] n = ([], n)"
| "frame_bubbles g f t br (b # bs) n =
     (let (b', n') = frame_bubble g f t br (b, n);
          (bs', n'') = frame_bubbles g f t br bs n'
      in (b' # bs', n''))"

definition frame_update ::
  "(nat \<Rightarrow> real) \<Rightarrow> real \<Rightarrow> real \<Rightarrow> BreathBubbles \<Rightarrow> BreathBubbles" where
  "frame_update g t br f =
     (let (bs, n) = frame_bubbles g f t br (bubbles f) (rand_pos f)
      in f\<lparr>bubbles := bs, rand_pos := n\<rparr>)"

subsection \<open>Drawing\<close>

text \<open>The line between two bubbles, when they are close enough (lines 122--132).\<close>

definition connection :: "BreathBubbles \<Rightarrow> bubble \<Rightarrow> bubble \<Rightarrow> draw list" where
  "connection f b1 b2 =
     (let dx = x b1 - x b2;
          dy = y b1 - y b2;
          dist = hypot dx dy
      in if dist < connectionDistance (options f) * dpr f then
           (let alpha = 1 - dist / (connectionDistance (options f) * dpr f)
            in [StrokeLine (1 * dpr f) ((hue b1 + hue b2) / 2) (alpha * (12 / 100))
                  (x b1) (y b1) (x b2) (y b2)])
         else [])"

text \<open>The inner loop over \<open>j\<close> (lines 120--133) and the outer loop over \<open>i\<close> (118--134).\<close>

fun connections_from :: "BreathBubbles \<Rightarrow> bubble \<Rightarrow> bubble list \<Rightarrow> draw list" where
  "connections_from f b1 [] = []"
| "connections_from f b1 (b2 # bs) = connection f b1 b2 @ connections_from f b1 bs"

fun connections :: "BreathBubbles \<Rightarrow> bubble list \<Rightarrow> draw list" where
  "connections f [] = []"
| "connections f (b1 # bs) = connections_from f b1 bs @ connections f bs"

text \<open>
  One bubble (lines 138--151). \<open>createRadialGradient\<close> is given the radii \<open>b.r * 0.1\<close>
  and \<open>b.r\<close>, and \<open>arc\<close> the radius \<open>b.r\<close>: a negative one raises \<open>IndexSizeError\<close>.
\<close>

definition draw_bubble :: "BreathBubbles \<Rightarrow> bubble \<Rightarrow> error + draw list" where
  "draw_bubble f b =
     (if r b * (1 / 10) < 0 \<or> r b < 0 then Inl IndexSizeError
      else Inr [FillCircle (hue b) (x b) (y b) (r b),
                StrokeCircle (12 / 10 * dpr f) (hue b) (x b) (y b) (r b)])"

text \<open>The loop that draws the bubbles (lines 137--152) stops at the first exception.\<close>

fun draw_bubbles :: "BreathBubbles \<Rightarrow> bubble list \<Rightarrow> error + draw list" where
  "draw_bubbles f [] = Inr []"
| "draw_bubbles f (b # bs) =
     (case draw_bubble f b of
        Inl e \<Rightarrow> Inl e
      | Inr ds \<Rightarrow>
          (case draw_bubbles f bs of Inl e \<Rightarrow> Inl e | Inr ds' \<Rightarrow> Inr (ds @ ds')))"

text \<open>Lines 116--152: the connections first, then the bubbles.\<close>

definition frame_render :: "BreathBubbles \<Rightarrow> error + draw list" where
  "frame_render f =
     (case draw_bubbles f (bubbles f) of
        Inl e \<Rightarrow> Inl e
      | Inr ds \<Rightarrow> Inr (connections f (bubbles f) @ ds))"

subsection \<open>The frame and the events\<close>

text \<open>
  \<open>frame()\<close> (lines 78--155) at time \<open>now\<close>: the new field and what was drawn, or the
  exception that ended the frame (and with it the animation, since the next frame is
  requested on the last line only).

  When the breathing factor is NaN, a field without bubbles never reads it. With a
  bubble, the update makes its radius NaN, no connection is drawn (a comparison with NaN
  is false), and the first \<open>createRadialGradient\<close> raises \<open>TypeError\<close>.
\<close>

definition frame ::
  "(nat \<Rightarrow> real) \<Rightarrow> real \<Rightarrow> BreathBubbles \<Rightarrow> error + BreathBubbles \<times> draw list" where
  "frame g now f =
     (let t = now - t0 f;
          clear = ClearRect 0 0 (canvas_width f) (canvas_height f)
      in case breath t (breathingPeriod (options f)) of
           None \<Rightarrow> if bubbles f = [] then Inr (f, [clear]) else Inl TypeError
         | Some br \<Rightarrow>
             (let f' = frame_update g t br f
              in case frame_render f' of
                   Inl e \<Rightarrow> Inl e
                 | Inr ds \<Rightarrow> Inr (f', clear # ds)))"

text \<open>
  What the host delivers to the field: the listeners of \<open>bind()\<close> (lines 35--47), the
  resize observer (line 27) and the animation frame.
\<close>

datatype event =
    PointerMove real real real real
      \<comment> \<open>\<open>clientX\<close>, \<open>clientY\<close>, and \<open>left\<close>, \<open>top\<close> of the bounding rectangle\<close>
  | PointerLeave
  | Resize real real
      \<comment> \<open>\<open>width\<close>, \<open>height\<close> of the bounding rectangle\<close>
  | VisibilityChange bool real
      \<comment> \<open>whether the document is visible, and the time\<close>
  | Frame real
      \<comment> \<open>the time\<close>

fun handle :: "(nat \<Rightarrow> real) \<Rightarrow> event \<Rightarrow> BreathBubbles \<Rightarrow> error + BreathBubbles" where
  "handle g (PointerMove clientX clientY rect_left rect_top) f =
     Inr (f\<lparr>mouse := \<lparr>mouse_x = (clientX - rect_left) * dpr f,
                      mouse_y = (clientY - rect_top) * dpr f,
                      active = True\<rparr>\<rparr>)"
| "handle g PointerLeave f = Inr (f\<lparr>mouse := (mouse f)\<lparr>active := False\<rparr>\<rparr>)"
| "handle g (Resize rect_width rect_height) f = Inr (resize rect_width rect_height f)"
| "handle g (VisibilityChange visible now) f = Inr (if visible then f\<lparr>t0 := now\<rparr> else f)"
| "handle g (Frame now) f =
     (case frame g now f of Inl e \<Rightarrow> Inl e | Inr (f', ds) \<Rightarrow> Inr f')"

text \<open>A sequence of events, up to the first exception.\<close>

fun run :: "(nat \<Rightarrow> real) \<Rightarrow> event list \<Rightarrow> BreathBubbles \<Rightarrow> error + BreathBubbles" where
  "run g [] f = Inr f"
| "run g (e # es) f = (case handle g e f of Inl err \<Rightarrow> Inl err | Inr f' \<Rightarrow> run g es f')"

subsection \<open>Measures and example values\<close>

text \<open>The distance of a bubble from the pointer, as the interaction step computes it.\<close>

definition pointer_distance :: "BreathBubbles \<Rightarrow> bubble \<Rightarrow> real" where
  "pointer_distance f b = hypot (x b - mouse_x (mouse f)) (y b - mouse_y (mouse f))"

text \<open>The factor by which the interaction step multiplies \<open>dx\<close> and \<open>dy\<close> (line 109).\<close>

definition pointer_force :: "BreathBubbles \<Rightarrow> bubble \<Rightarrow> real" where
  "pointer_force f b =
     (1 - pointer_distance f b / (180 * dpr f)) * interactiveForce (options f)"

text \<open>How far the interaction step moves a bubble.\<close>

definition pointer_displacement :: "BreathBubbles \<Rightarrow> bubble \<Rightarrow> real" where
  "pointer_displacement f b = hypot (x (interact f b) - x b) (y (interact f b) - y b)"

text \<open>
  The configurations that the specification calls valid for construction: a positive
  particle count and a radius range that is not inverted.
\<close>

definition spec_valid_configuration :: "options \<Rightarrow> bool" where
  "spec_valid_configuration opts \<longleftrightarrow> 0 < bubbleCount opts \<and> minRadius opts \<le> maxRadius opts"

text \<open>
  A field whose frames can be drawn: the breathing period is not zero and no base radius
  is negative.
\<close>

definition drawable :: "BreathBubbles \<Rightarrow> bool" where
  "drawable f \<longleftrightarrow>
     breathingPeriod (options f) \<noteq> 0 \<and> list_all (\<lambda>b. 0 \<le> baseR b) (bubbles f)"

text \<open>The radii of the bubbles after a frame, or the exception that ended it.\<close>

definition frame_radii :: "(nat \<Rightarrow> real) \<Rightarrow> real \<Rightarrow> BreathBubbles \<Rightarrow> error + real list" where
  "frame_radii g now f =
     (case frame g now f of Inl e \<Rightarrow> Inl e | Inr (f', ds) \<Rightarrow> Inr (map r (bubbles f')))"

text \<open>A random sequence of zeros: \<open>Math.random()\<close> may return 0, never 1.\<close>

definition zero_random :: "nat \<Rightarrow> real" where
  "zero_random n = 0"

text \<open>
  A field with the default options at pixel ratio 1 on a canvas of 100 by 100 pixels,
  without bubbles and without pointer; the same with the pointer active at the origin;
  and a bubble at a given place with a given radius, drifting slowly upwards.
\<close>

definition quiet_field :: BreathBubbles where
  "quiet_field =
     \<lparr>dpr = 1, options = default_options, bubbles = [], t0 = 0,
      mouse = \<lparr>mouse_x = 0, mouse_y = 0, active = False\<rparr>,
      canvas_width = 100, canvas_height = 100, rand_pos = 0\<rparr>"

definition pointer_field :: BreathBubbles where
  "pointer_field = quiet_field\<lparr>mouse := \<lparr>mouse_x = 0, mouse_y = 0, active = True\<rparr>\<rparr>"

definition bubble_at :: "real \<Rightarrow> real \<Rightarrow> real \<Rightarrow> bubble" where
  "bubble_at px py rad =
     \<lparr>x = px, y = py, r = rad, baseR = rad, hue = 190, vy = - (12 / 100), vx = 0,
      wobbleSeed = 0\<rparr>"

section \<open>Properties\<close>

subsection \<open>The steps of the update loop\<close>

text \<open>What each step leaves alone, and the one field the breathing step sets.\<close>

lemma breathe_fields [simp]:
  "x (breathe br b) = x b" "y (breathe br b) = y b"
  "r (breathe br b) = baseR b * (82 / 100 + br * (36 / 100))"
  "baseR (breathe br b) = baseR b" "hue (breathe br b) = hue b"
  "vy (breathe br b) = vy b" "vx (breathe br b) = vx b"
  "wobbleSeed (breathe br b) = wobbleSeed b"
  by (simp_all add: breathe_def)

lemma move_fields [simp]:
  "r (move f t br b) = r b"
  "baseR (move f t br b) = baseR b" "hue (move f t br b) = hue b"
  "vy (move f t br b) = vy b" "vx (move f t br b) = vx b"
  "wobbleSeed (move f t br b) = wobbleSeed b"
  by (simp_all add: move_def Let_def)

lemma recycle_fields [simp]:
  "r (fst (recycle g f (b, n))) = r b"
  "baseR (fst (recycle g f (b, n))) = baseR b" "hue (fst (recycle g f (b, n))) = hue b"
  "vy (fst (recycle g f (b, n))) = vy b" "vx (fst (recycle g f (b, n))) = vx b"
  "wobbleSeed (fst (recycle g f (b, n))) = wobbleSeed b"
  by (simp_all add: recycle_def)

lemma wrap_fields [simp]:
  "y (wrap f b) = y b" "r (wrap f b) = r b"
  "baseR (wrap f b) = baseR b" "hue (wrap f b) = hue b"
  "vy (wrap f b) = vy b" "vx (wrap f b) = vx b"
  "wobbleSeed (wrap f b) = wobbleSeed b"
  by (simp_all add: wrap_def)

lemma interact_fields [simp]:
  "r (interact f b) = r b"
  "baseR (interact f b) = baseR b" "hue (interact f b) = hue b"
  "vy (interact f b) = vy b" "vx (interact f b) = vx b"
  "wobbleSeed (interact f b) = wobbleSeed b"
  by (simp_all add: interact_def Let_def)

lemma interact_inactive: "\<not> active (mouse f) \<Longrightarrow> interact f b = b"
  by (simp add: interact_def)


lemma frame_bubble_fst:
  "fst (frame_bubble g f t br (b, n)) =
     interact f (wrap f (fst (recycle g f (move f t br (breathe br b), n))))"
  by (simp add: frame_bubble_def split_beta)

lemma frame_bubble_fields:
  "r (fst (frame_bubble g f t br (b, n))) = baseR b * (82 / 100 + br * (36 / 100))"
  "baseR (fst (frame_bubble g f t br (b, n))) = baseR b" 
  "hue (fst (frame_bubble g f t br (b, n))) = hue b"
  "vy (fst (frame_bubble g f t br (b, n))) = vy b" 
  "vx (fst (frame_bubble g f t br (b, n))) = vx b"
  "wobbleSeed (fst (frame_bubble g f t br (b, n))) = wobbleSeed b"
  by (simp_all add: frame_bubble_fst)


text \<open>
  The update loop handles every bubble by \<open>frame_bubble\<close>, each with the count of random
  values that the bubbles before it left.
\<close>

lemma frame_bubbles_rel:
  "list_all2 (\<lambda>b b'. \<exists>n. b' = fst (frame_bubble g f t br (b, n)))
     bs (fst (frame_bubbles g f t br bs n))"
  by (induction bs arbitrary: n) (auto simp: split_beta)

lemma frame_update_rel:
  "list_all2 (\<lambda>b b'. \<exists>n. b' = fst (frame_bubble g f t br (b, n)))
     (bubbles f) (bubbles (frame_update g t br f))"
  using frame_bubbles_rel[of g f t br "bubbles f" "rand_pos f"]
  by (simp add: frame_update_def split_beta)

lemma frame_update_length: "length (bubbles (frame_update g t br f)) = length (bubbles f)"
  using frame_update_rel[of g f t br] by (simp add: list_all2_lengthD)

lemma frame_update_static [simp]:
  "dpr (frame_update g t br f) = dpr f"
  "options (frame_update g t br f) = options f"
  "t0 (frame_update g t br f) = t0 f"
  "mouse (frame_update g t br f) = mouse f"
  "canvas_width (frame_update g t br f) = canvas_width f"
  "canvas_height (frame_update g t br f) = canvas_height f"
  by (simp_all add: frame_update_def split_beta)

lemma frame_update_radii:
  "map r (bubbles (frame_update g t br f))
     = map (\<lambda>b. baseR b * (82 / 100 + br * (36 / 100))) (bubbles f)"
proof -
  have "list_all2 (\<lambda>b b'. baseR b * (82 / 100 + br * (36 / 100)) = r b')
          (bubbles f) (bubbles (frame_update g t br f))"
    by (rule list_all2_mono [OF frame_update_rel]) (auto simp: frame_bubble_fields)
  then show ?thesis by (simp add: list_all2_conv_all_nth list_eq_iff_nth_eq)
qed

lemma frame_update_empty: "bubbles f = [] \<Longrightarrow> frame_update g t br f = f"
  by (simp add: frame_update_def)

lemma list_all2_right_member:
  "list_all2 P xs ys \<Longrightarrow> b' \<in> set ys \<Longrightarrow> \<exists>b \<in> set xs. P b b'"
  by (induction rule: list_all2_induct) auto


subsection \<open>The breathing factor\<close>

lemma breath_Some:
  "period \<noteq> 0 \<Longrightarrow> breath t period = Some ((sin (2 * pi * t / period) + 1) / 2)"
proof -
  have "(t / period) * pi * 2 = 2 * pi * t / period" by simp
  then show "period \<noteq> 0 \<Longrightarrow> ?thesis" by (simp only: breath_def if_False)
qed

lemma sin_turn:
  "period \<noteq> 0 \<Longrightarrow> sin (2 * pi * (t + period) / period) = sin (2 * pi * t / period)"
proof -
  assume p: "period \<noteq> 0"
  have "2 * pi * (t + period) / period = 2 * pi * t / period + 2 * pi"
    using p by (simp add: add_divide_distrib algebra_simps)
  then show ?thesis by (simp only: sin_periodic)
qed

lemma half_sin_range: "0 \<le> (sin (a::real) + 1) / 2 \<and> (sin a + 1) / 2 \<le> 1"
proof
  show "0 \<le> (sin a + 1) / 2" using sin_ge_minus_one[of a] by argo
  show "(sin a + 1) / 2 \<le> 1" using sin_le_one[of a] by simp
qed

lemma breath_range: "breath t p = Some br \<Longrightarrow> 0 \<le> br \<and> br \<le> 1"
proof -
  assume "breath t p = Some br"
  then have "br = (sin ((t / p) * pi * 2) + 1) / 2"
    by (simp add: breath_def split: if_splits)
  then show ?thesis by (simp only: half_sin_range)
qed

lemma scale_bounds:
  assumes "0 \<le> br" "br \<le> 1" "0 \<le> (a::real)"
  shows "82 / 100 * a \<le> a * (82 / 100 + br * (36 / 100))"
    and "a * (82 / 100 + br * (36 / 100)) \<le> 118 / 100 * a"
proof -
  have "0 \<le> a * br" using assms by simp
  then show "82 / 100 * a \<le> a * (82 / 100 + br * (36 / 100))"
    by (simp add: algebra_simps)
  have "a * br \<le> a * 1" using assms by (intro mult_left_mono) simp_all
  then show "a * (82 / 100 + br * (36 / 100)) \<le> 118 / 100 * a"
    by (simp add: algebra_simps)
qed


subsection \<open>Distances\<close>

lemma hypot_nonneg: "0 \<le> hypot a b" by (simp add: hypot_def)

lemma hypot_scale: "hypot (a * c) (b * c) = \<bar>c\<bar> * hypot a b"
proof -
  have "a * c * (a * c) + b * c * (b * c) = c\<^sup>2 * (a * a + b * b)"
    by (simp add: power2_eq_square algebra_simps)
  then show ?thesis by (simp add: hypot_def real_sqrt_mult)
qed

lemma hypot_zero_right: "hypot a 0 = \<bar>a\<bar>"
  by (simp add: hypot_def)

lemma pointer_distance_nonneg: "0 \<le> pointer_distance f b"
  by (simp add: pointer_distance_def hypot_nonneg)


lemma interact_near:
  assumes "active (mouse f)" "pointer_distance f b < 180 * dpr f"
  shows "x (interact f b) = x b + (x b - mouse_x (mouse f)) * pointer_force f b"
    and "y (interact f b) = y b + (y b - mouse_y (mouse f)) * pointer_force f b"
  using assms by (simp_all add: interact_def pointer_distance_def pointer_force_def Let_def)

lemma pointer_distance_interact:
  assumes "active (mouse f)" "pointer_distance f b < 180 * dpr f"
  shows "pointer_distance f (interact f b) = \<bar>1 + pointer_force f b\<bar> * pointer_distance f b"
proof -
  let ?k = "1 + pointer_force f b"
  have "x (interact f b) - mouse_x (mouse f) = (x b - mouse_x (mouse f)) * ?k"
       "y (interact f b) - mouse_y (mouse f) = (y b - mouse_y (mouse f)) * ?k"
    by (simp_all add: interact_near [OF assms] algebra_simps)
  then show ?thesis
    by (simp only: pointer_distance_def hypot_scale)
qed

lemma pointer_displacement_near:
  assumes "active (mouse f)" "pointer_distance f b < 180 * dpr f"
  shows "pointer_displacement f b = \<bar>pointer_force f b\<bar> * pointer_distance f b"
proof -
  have "x (interact f b) - x b = (x b - mouse_x (mouse f)) * pointer_force f b"
       "y (interact f b) - y b = (y b - mouse_y (mouse f)) * pointer_force f b"
    by (simp_all add: interact_near [OF assms])
  then show ?thesis
    by (simp only: pointer_displacement_def pointer_distance_def hypot_scale)
qed

lemma pointer_force_nonneg:
  assumes "pointer_distance f b < 180 * dpr f" "0 \<le> interactiveForce (options f)"
  shows "0 \<le> pointer_force f b"
proof -
  have R: "0 < 180 * dpr f" using assms(1) pointer_distance_nonneg[of f b] by linarith
  then have "pointer_distance f b / (180 * dpr f) < 1" using assms(1) by simp
  then show ?thesis using assms(2) by (simp add: pointer_force_def)
qed


lemma displacement_difference:
  assumes "0 < (R::real)"
  shows "(1 - d1 / R) * F * d1 - (1 - d2 / R) * F * d2 = F * (d2 - d1) * (d1 + d2 - R) / R"
  using assms by (simp add: field_simps)

lemma displacement_order:
  assumes "0 < (R::real)" "0 < F" "d1 < d2"
  shows "((1 - d2 / R) * F * d2 \<le> (1 - d1 / R) * F * d1) = (R \<le> d1 + d2)"
    and "((1 - d1 / R) * F * d1 = (1 - d2 / R) * F * d2) = (d1 + d2 = R)"
proof -
  let ?a = "(1 - d1 / R) * F * d1" and ?b = "(1 - d2 / R) * F * d2"
  have c: "0 < F * (d2 - d1) / R" using assms by simp
  have e: "?a - ?b = (F * (d2 - d1) / R) * (d1 + d2 - R)"
    using displacement_difference [OF assms(1), of d1 F d2] by simp
  have "(?b \<le> ?a) = (0 \<le> ?a - ?b)" by simp
  also have "\<dots> = (0 \<le> d1 + d2 - R)" unfolding e using c by (simp only: zero_le_mult_iff) auto
  finally show "(?b \<le> ?a) = (R \<le> d1 + d2)" by simp
  have "(?a = ?b) = (?a - ?b = 0)" by simp
  also have "\<dots> = (d1 + d2 - R = 0)" unfolding e using c by (simp only: mult_eq_0_iff) auto
  finally show "(?a = ?b) = (d1 + d2 = R)" by simp
qed


subsection \<open>Containment after the wrap and recycle checks\<close>

lemma wrap_contained:
  assumes "0 \<le> r b" "0 \<le> canvas_width f"
  shows "- r b \<le> x (wrap f b) \<and> x (wrap f b) \<le> canvas_width f + r b"
  using assms by (simp add: wrap_def)

lemma recycle_above:
  assumes "0 \<le> r b" "0 \<le> canvas_height f"
  shows "- r b \<le> y (fst (recycle g f (b, n)))"
  using assms by (simp add: recycle_def)

lemma frame_bubble_contained:
  assumes "\<not> active (mouse f)" "0 \<le> canvas_width f" "0 \<le> canvas_height f"
    and "0 \<le> br" "0 \<le> baseR b"
    and "b' = fst (frame_bubble g f t br (b, n))"
  shows "- r b' \<le> x b' \<and> x b' \<le> canvas_width f + r b' \<and> - r b' \<le> y b'"
proof -
  let ?b1 = "move f t br (breathe br b)"
  let ?b2 = "fst (recycle g f (?b1, n))"
  have r1: "0 \<le> r ?b1" using assms(4,5) by simp
  then have r2: "0 \<le> r ?b2" by simp
  have b': "b' = wrap f ?b2"
    using assms(1,6) by (simp add: frame_bubble_fst interact_inactive)
  have rb': "r b' = r ?b2" "r ?b2 = r ?b1" by (simp_all add: b')
  have "- r ?b1 \<le> y ?b2" using r1 assms(3) by (rule recycle_above)
  moreover have "- r ?b2 \<le> x (wrap f ?b2) \<and> x (wrap f ?b2) \<le> canvas_width f + r ?b2"
    using r2 assms(2) by (rule wrap_contained)
  ultimately show ?thesis unfolding b' by simp
qed


subsection \<open>Construction\<close>

lemma makeBubble_radius:
  "baseR (fst (makeBubble g f)) = rand (g (rand_pos f)) (minRadius (options f)) (maxRadius (options f))"
  "r (fst (makeBubble g f)) = baseR (fst (makeBubble g f))"
  by (simp_all add: makeBubble_def Let_def)

lemma init_loop_static [simp]:
  "dpr (init_loop g k f) = dpr f"
  "options (init_loop g k f) = options f"
  "t0 (init_loop g k f) = t0 f"
  "mouse (init_loop g k f) = mouse f"
  "canvas_width (init_loop g k f) = canvas_width f"
  "canvas_height (init_loop g k f) = canvas_height f"
  by (induction k arbitrary: f; simp add: split_beta)+

lemma init_loop_length: "length (bubbles (init_loop g k f)) = length (bubbles f) + k"
  by (induction k arbitrary: f) (simp_all add: split_beta)

lemma init_loop_radius:
  assumes "\<forall>b \<in> set (bubbles f). P b"
    and "\<And>u. P' (rand (g u) (minRadius (options f)) (maxRadius (options f)))"
    and "\<And>b. P' (baseR b) \<Longrightarrow> r b = baseR b \<Longrightarrow> P b"
  shows "\<forall>b \<in> set (bubbles (init_loop g k f)). P b"
  using assms(1,2)
proof (induction k arbitrary: f)
  case 0
  then show ?case by simp
next
  case (Suc k)
  let ?f = "f\<lparr>bubbles := bubbles f @ [fst (makeBubble g f)], rand_pos := snd (makeBubble g f)\<rparr>"
  have "P (fst (makeBubble g f))"
    by (rule assms(3)) (simp_all add: makeBubble_radius Suc.prems(2))
  with Suc.prems(1) have "\<forall>b \<in> set (bubbles ?f). P b" by simp
  moreover have "\<And>u. P' (rand (g u) (minRadius (options ?f)) (maxRadius (options ?f)))"
    using Suc.prems(2) by simp
  ultimately have "\<forall>b \<in> set (bubbles (init_loop g k ?f)). P b" by (rule Suc.IH)
  then show ?case by (simp add: split_beta)
qed

lemma init_static [simp]:
  "dpr (init g f) = dpr f"
  "options (init g f) = options f"
  "t0 (init g f) = t0 f"
  "mouse (init g f) = mouse f"
  "canvas_width (init g f) = canvas_width f"
  "canvas_height (init g f) = canvas_height f"
  by (simp_all add: init_def)

lemma init_length: "length (bubbles (init g f)) = nat \<lceil>bubbleCount (options f)\<rceil>"
  by (simp add: init_def init_loop_length)

lemma init_radius:
  assumes "\<And>u. P' (rand (g u) (minRadius (options f)) (maxRadius (options f)))"
    and "\<And>b. P' (baseR b) \<Longrightarrow> r b = baseR b \<Longrightarrow> P b"
  shows "\<forall>b \<in> set (bubbles (init g f)). P b"
  unfolding init_def
  by (rule init_loop_radius [where P' = P']) (simp_all add: assms)


lemma new_static [simp]:
  "dpr (new_BreathBubbles g d w h now opts) = device_pixel_ratio d"
  "options (new_BreathBubbles g d w h now opts) = Object_assign default_options opts"
  "t0 (new_BreathBubbles g d w h now opts) = now"
  "mouse (new_BreathBubbles g d w h now opts) = \<lparr>mouse_x = 0, mouse_y = 0, active = False\<rparr>"
  "canvas_width (new_BreathBubbles g d w h now opts) = w * device_pixel_ratio d"
  "canvas_height (new_BreathBubbles g d w h now opts) = h * device_pixel_ratio d"
  by (simp_all add: new_BreathBubbles_def resize_def)

lemma new_length:
  "length (bubbles (new_BreathBubbles g d w h now opts))
     = nat \<lceil>bubbleCount (Object_assign default_options opts)\<rceil>"
  by (simp add: new_BreathBubbles_def init_length resize_def)

lemma new_radius:
  assumes "\<And>u. P' (rand (g u) (minRadius (Object_assign default_options opts))
                     (maxRadius (Object_assign default_options opts)))"
    and "\<And>b. P' (baseR b) \<Longrightarrow> r b = baseR b \<Longrightarrow> P b"
  shows "\<forall>b \<in> set (bubbles (new_BreathBubbles g d w h now opts)). P b"
  unfolding new_BreathBubbles_def
  by (rule init_radius [where P' = P']) (simp_all add: assms resize_def)

lemma rand_inverted:
  assumes "hi < lo" "0 \<le> u" "u < 1"
  shows "hi < rand u lo hi \<and> rand u lo hi \<le> lo"
proof -
  have "u * (lo - hi) < 1 * (lo - hi)" using assms by (intro mult_strict_right_mono) simp_all
  moreover have "0 \<le> u * (lo - hi)" using assms by simp
  ultimately show ?thesis by (simp add: rand_def algebra_simps)
qed


subsection \<open>Frames and events\<close>

text \<open>
  Drawing succeeds exactly when no radius is negative; a frame then returns the updated
  field.
\<close>

lemma draw_bubbles_ok:
  "(\<forall>b \<in> set bs. 0 \<le> r b) \<Longrightarrow> \<exists>ds. draw_bubbles f bs = Inr ds"
  by (induction bs) (auto simp: draw_bubble_def)

lemma draw_bubbles_Inr:
  "draw_bubbles f bs = Inr ds \<Longrightarrow> \<forall>b \<in> set bs. 0 \<le> r b"
  by (induction bs arbitrary: ds) (auto simp: draw_bubble_def split: if_splits sum.splits)

lemma frame_Some:
  assumes "breath (now - t0 f) (breathingPeriod (options f)) = Some br"
    and "\<forall>b \<in> set (bubbles f). 0 \<le> baseR b"
  shows "\<exists>ds. frame g now f = Inr (frame_update g (now - t0 f) br f, ds)"
proof -
  let ?f' = "frame_update g (now - t0 f) br f"
  have br: "0 \<le> br" using assms(1) breath_range by blast
  have "\<forall>r' \<in> set (map r (bubbles ?f')). 0 \<le> r'"
    unfolding frame_update_radii using assms(2) br by simp
  then have "\<forall>b \<in> set (bubbles ?f'). 0 \<le> r b" by simp
  then obtain ds where "draw_bubbles ?f' (bubbles ?f') = Inr ds"
    using draw_bubbles_ok by blast
  then show ?thesis
    using assms(1) by (simp add: frame_def frame_render_def Let_def)
qed

lemma frame_radii_Some:
  assumes "breath (now - t0 f) (breathingPeriod (options f)) = Some br"
    and "\<forall>b \<in> set (bubbles f). 0 \<le> baseR b"
  shows "frame_radii g now f = Inr (map (\<lambda>b. baseR b * (82 / 100 + br * (36 / 100))) (bubbles f))"
proof -
  let ?f' = "frame_update g (now - t0 f) br f"
  have br: "0 \<le> br" using assms(1) breath_range by blast
  have "\<forall>r' \<in> set (map r (bubbles ?f')). 0 \<le> r'"
    unfolding frame_update_radii using assms(2) br by simp
  then have "\<forall>b \<in> set (bubbles ?f'). 0 \<le> r b" by simp
  then obtain ds where "draw_bubbles ?f' (bubbles ?f') = Inr ds"
    using draw_bubbles_ok by blast
  then show ?thesis
    using assms(1) by (simp add: frame_radii_def frame_def frame_render_def frame_update_radii Let_def)
qed


lemma frame_Inr_cases:
  assumes "frame g now f = Inr (f', ds)"
  shows "(f' = f \<and> bubbles f = []) \<or>
         (\<exists>br. breath (now - t0 f) (breathingPeriod (options f)) = Some br \<and>
               f' = frame_update g (now - t0 f) br f)"
  using assms
  by (auto simp: frame_def Let_def split: option.splits if_splits sum.splits)

lemma frame_length:
  "frame g now f = Inr (f', ds) \<Longrightarrow> length (bubbles f') = length (bubbles f)"
  using frame_Inr_cases [of g now f f' ds] by (auto simp: frame_update_length)

lemma frame_empty:
  assumes "bubbles f = []"
  shows "frame g now f = Inr (f, [ClearRect 0 0 (canvas_width f) (canvas_height f)])"
  using assms
  by (simp add: frame_def frame_render_def frame_update_empty Let_def split: option.splits)


lemma handle_length:
  "handle g e f = Inr f' \<Longrightarrow> length (bubbles f') = length (bubbles f)"
  by (cases e) (auto simp: resize_def frame_length split: sum.splits if_splits)

lemma run_length:
  "run g es f = Inr f' \<Longrightarrow> length (bubbles f') = length (bubbles f)"
proof (induction es arbitrary: f)
  case Nil
  then show ?case by simp
next
  case (Cons e es)
  then obtain f1 where h: "handle g e f = Inr f1" and r: "run g es f1 = Inr f'"
    by (auto split: sum.splits)
  from Cons.IH [OF r] handle_length [OF h] show ?case by simp
qed

lemma handle_empty:
  assumes "bubbles f = []"
  shows "\<exists>f'. handle g e f = Inr f' \<and> bubbles f' = []"
  using assms by (cases e) (simp_all add: resize_def frame_empty)

lemma run_empty:
  "bubbles f = [] \<Longrightarrow> \<exists>f'. run g es f = Inr f' \<and> bubbles f' = []"
proof (induction es arbitrary: f)
  case Nil
  then show ?case by simp
next
  case (Cons e es)
  from handle_empty [OF Cons.prems, of g e]
  obtain f1 where h: "handle g e f = Inr f1" and e: "bubbles f1 = []" by blast
  from Cons.IH [OF e] h show ?case by simp
qed


text \<open>
  A drawable field stays drawable, and no frame on it raises an exception; the
  constructor returns one when the period is not zero, the radius bounds are not
  negative and the random values lie in \<open>[0, 1]\<close>.
\<close>

lemma frame_update_drawable:
  assumes "drawable f"
  shows "drawable (frame_update g t br f)"
proof -
  have "0 \<le> baseR b'" if "b' \<in> set (bubbles (frame_update g t br f))" for b'
  proof -
    from list_all2_right_member [OF frame_update_rel [of g f t br] that]
    obtain b n where "b \<in> set (bubbles f)" "b' = fst (frame_bubble g f t br (b, n))"
      by blast
    then show ?thesis using assms by (simp add: drawable_def list_all_iff frame_bubble_fields)
  qed
  then show ?thesis using assms by (simp add: drawable_def list_all_iff)
qed

lemma frame_drawable:
  assumes "drawable f"
  shows "\<exists>f' ds. frame g now f = Inr (f', ds) \<and> drawable f'"
proof -
  from assms have "breathingPeriod (options f) \<noteq> 0" by (simp add: drawable_def)
  from breath_Some [OF this] obtain br
    where br: "breath (now - t0 f) (breathingPeriod (options f)) = Some br"
    by blast
  from assms have "\<forall>b \<in> set (bubbles f). 0 \<le> baseR b"
    by (simp add: drawable_def list_all_iff)
  with br obtain ds where "frame g now f = Inr (frame_update g (now - t0 f) br f, ds)"
    using frame_Some by blast
  with frame_update_drawable [OF assms] show ?thesis by blast
qed

lemma handle_drawable:
  assumes "drawable f"
  shows "\<exists>f'. handle g e f = Inr f' \<and> drawable f'"
proof (cases e)
  case (Frame now)
  with frame_drawable [OF assms, of g now] show ?thesis by auto
qed (use assms in \<open>auto simp: drawable_def resize_def\<close>)

lemma run_drawable:
  "drawable f \<Longrightarrow> \<exists>f'. run g es f = Inr f' \<and> drawable f'"
proof (induction es arbitrary: f)
  case Nil
  then show ?case by simp
next
  case (Cons e es)
  from handle_drawable [OF Cons.prems, of g e]
  obtain f1 where h: "handle g e f = Inr f1" and d: "drawable f1" by blast
  from Cons.IH [OF d] h show ?case by simp
qed

lemma rand_nonneg:
  assumes "0 \<le> lo" "0 \<le> hi" "0 \<le> u" "u \<le> 1"
  shows "0 \<le> rand u lo hi"
proof -
  have "rand u lo hi = (1 - u) * lo + u * hi" by (simp add: rand_def algebra_simps)
  moreover have "0 \<le> (1 - u) * lo" "0 \<le> u * hi" using assms by simp_all
  ultimately show ?thesis by simp
qed

lemma new_drawable:
  assumes "c = Object_assign default_options opts"
    and "breathingPeriod c \<noteq> 0" "0 \<le> minRadius c" "0 \<le> maxRadius c"
    and "\<And>n. 0 \<le> g n \<and> g n \<le> 1"
  shows "drawable (new_BreathBubbles g d w h start opts)"
proof -
  have "\<forall>b \<in> set (bubbles (new_BreathBubbles g d w h start opts)). 0 \<le> baseR b"
    by (rule new_radius [where P' = "\<lambda>v. 0 \<le> v"])
       (use assms in \<open>simp_all add: rand_nonneg\<close>)
  then show ?thesis using assms(1,2) by (simp add: drawable_def list_all_iff)
qed


text \<open>The definitions that evaluate a frame on a concrete field.\<close>

lemmas example_defs =
  quiet_field_def bubble_at_def default_options_def zero_random_def

lemmas frame_defs =
  frame_def frame_update_def frame_render_def frame_bubble_def breathe_def move_def
  recycle_def wrap_def interact_def draw_bubble_def connection_def breath_def Let_def


section \<open>The claims\<close>

subsection \<open>C5: the breathing factor\<close>

text \<open>
  Claim C5. The breathing factor of a tick is \<open>(sin (2\<pi> t / breathingPeriod) + 1) / 2\<close>,
  it lies between 0 and 1 at every elapsed time, and it has the period
  \<open>breathingPeriod\<close>: the factor at \<open>t + breathingPeriod\<close> is the factor at \<open>t\<close>.
  The period is not zero; over the reals the equalities are exact.
\<close>

theorem breath_formula_range_period:
  assumes "period \<noteq> 0"
  shows "breath t period = Some ((sin (2 * pi * t / period) + 1) / 2) \<and>
         (\<exists>v. breath t period = Some v \<and> 0 \<le> v \<and> v \<le> 1) \<and>
         breath (t + period) period = breath t period"
proof (intro conjI)
  show eq: "breath t period = Some ((sin (2 * pi * t / period) + 1) / 2)"
    using assms by (rule breath_Some)
  with half_sin_range show "\<exists>v. breath t period = Some v \<and> 0 \<le> v \<and> v \<le> 1"
    by blast
  show "breath (t + period) period = breath t period"
    by (simp only: breath_Some [OF assms] sin_turn [OF assms])
qed

theorem breath_formula_range_period_witness:
  "(6400 :: real) \<noteq> 0 \<and> breath 1600 6400 = Some 1 \<and> breath 8000 6400 = Some 1"
  using breath_formula_range_period [of 6400 1600] by simp

subsection \<open>C4: the radius follows the breathing factor\<close>

text \<open>
  Claim C4. At every tick whose breathing factor is \<open>br\<close>, the update gives every bubble
  the radius \<open>baseR * (0.82 + br * 0.36)\<close> and leaves its base radius alone; for a base
  radius that is not negative the new radius lies between \<open>0.82 * baseR\<close> and
  \<open>1.18 * baseR\<close>.
\<close>

theorem radius_breathing_bound:
  assumes "breath t (breathingPeriod (options f)) = Some br"
  shows "list_all2
           (\<lambda>b b'. r b' = baseR b * (82 / 100 + br * (36 / 100)) \<and> baseR b' = baseR b \<and>
                    (0 \<le> baseR b \<longrightarrow> 82 / 100 * baseR b \<le> r b' \<and> r b' \<le> 118 / 100 * baseR b))
           (bubbles f) (bubbles (frame_update g t br f))"
proof -
  from assms have br: "0 \<le> br" "br \<le> 1" using breath_range by blast+
  show ?thesis
  proof (rule list_all2_mono [OF frame_update_rel])
    fix b b'
    assume "\<exists>n. b' = fst (frame_bubble g f t br (b, n))"
    then obtain n where b': "b' = fst (frame_bubble g f t br (b, n))" ..
    show "r b' = baseR b * (82 / 100 + br * (36 / 100)) \<and> baseR b' = baseR b \<and>
          (0 \<le> baseR b \<longrightarrow> 82 / 100 * baseR b \<le> r b' \<and> r b' \<le> 118 / 100 * baseR b)"
      using scale_bounds [OF br] by (simp add: b' frame_bubble_fields)
  qed
qed


theorem radius_breathing_bound_witness:
  "breath 0 (breathingPeriod (options (quiet_field\<lparr>bubbles := [bubble_at 50 50 10]\<rparr>)))
     = Some (1 / 2) \<and>
   0 \<le> baseR (bubble_at 50 50 10) \<and>
   map r (bubbles (frame_update zero_random 0 (1 / 2)
                     (quiet_field\<lparr>bubbles := [bubble_at 50 50 10]\<rparr>))) = [10]"
  using radius_breathing_bound [of 0 "quiet_field\<lparr>bubbles := [bubble_at 50 50 10]\<rparr>"
      "1 / 2" zero_random]
  by (simp add: example_defs frame_defs)


subsection \<open>C3: the first frame at elapsed time 0\<close>

text \<open>
  Claim C3, as the code has it. A field constructed with one bubble and
  \<open>minRadius = maxRadius = 10\<close> on a canvas of 100 by 100, with no pointer, has after a
  frame at elapsed time 0 the radius list \<open>[10]\<close>: the breathing factor at 0 is
  \<open>(sin 0 + 1) / 2 = 1 / 2\<close>, so the scale is \<open>0.82 + 0.5 * 0.36 = 1\<close>. This holds for every
  random sequence, pixel ratio and construction time.
\<close>

theorem first_frame_radius:
  "frame_radii g now
     (new_BreathBubbles g d 100 100 now [BubbleCount 1, MinRadius 10, MaxRadius 10])
   = Inr [10]"
proof -
  let ?opts = "[BubbleCount 1, MinRadius 10, MaxRadius 10]"
  let ?f = "new_BreathBubbles g d 100 100 now ?opts"
  have opts: "Object_assign default_options ?opts
      = default_options\<lparr>bubbleCount := 1, minRadius := 10, maxRadius := 10\<rparr>"
    by (simp add: Object_assign_def)
  have len: "length (bubbles ?f) = 1"
    by (simp add: new_length opts)
  have "\<forall>b \<in> set (bubbles ?f). baseR b = 10"
    by (rule new_radius [where P' = "\<lambda>v. v = 10"]) (simp_all add: opts rand_def)
  with len have base: "map baseR (bubbles ?f) = [10]"
    by (cases "bubbles ?f") simp_all
  have br: "breath (now - t0 ?f) (breathingPeriod (options ?f)) = Some (1 / 2)"
  proof -
    have "breathingPeriod default_options = 6400" by (simp add: default_options_def)
    then show ?thesis by (simp add: opts breath_def)
  qed
  have "frame_radii g now ?f
      = Inr (map (\<lambda>b. baseR b * (82 / 100 + 1 / 2 * (36 / 100))) (bubbles ?f))"
    using br
  proof (rule frame_radii_Some)
    show "\<forall>b\<in>set (bubbles ?f). 0 \<le> baseR b"
      using \<open>\<forall>b \<in> set (bubbles ?f). baseR b = 10\<close> by simp
  qed
  also have "map (\<lambda>b. baseR b * (82 / 100 + 1 / 2 * (36 / 100))) (bubbles ?f)
      = map (\<lambda>v. v * (82 / 100 + 1 / 2 * (36 / 100))) (map baseR (bubbles ?f))"
    by (simp add: comp_def)
  also have "\<dots> = [10]" unfolding base by simp
  finally show ?thesis .
qed


text \<open>
  The claim C3 as it is stated asks for the radius \<open>8.2\<close>, from a breathing factor 0 at
  elapsed time 0. The frame gives another radius.
\<close>

theorem first_frame_radius_counterexample:
  "frame_radii zero_random 0
     (new_BreathBubbles zero_random None 100 100 0 [BubbleCount 1, MinRadius 10, MaxRadius 10])
   \<noteq> Inr [82 / 10]"
  by (simp add: frame_radii_def frame_def frame_render_def frame_update_def
      frame_bubble_def breathe_def move_def recycle_def wrap_def interact_def draw_bubble_def
      breath_def new_BreathBubbles_def init_def resize_def makeBubble_def rand_def
      Object_assign_def default_options_def device_pixel_ratio_def zero_random_def Let_def)


subsection \<open>C1: the pointer moves a bubble away\<close>

text \<open>
  Claim C1, as the code has it. For a bubble within \<open>180 * dpr\<close> of an active pointer
  and an \<open>interactiveForce\<close> that is not negative, the interaction step adds to the
  position the vector from the pointer to the bubble, multiplied by
  \<open>force = interactiveForce * (1 - distance / (180 * dpr))\<close>, which is not negative. The
  distance from the pointer becomes \<open>(1 + force) * distance\<close>: the bubble is no closer
  to the pointer than before.
\<close>

theorem pointer_pushes_away:
  assumes "active (mouse f)" "pointer_distance f b < 180 * dpr f"
    and "0 \<le> interactiveForce (options f)"
  shows "x (interact f b) = x b + (x b - mouse_x (mouse f)) * pointer_force f b \<and>
         y (interact f b) = y b + (y b - mouse_y (mouse f)) * pointer_force f b \<and>
         0 \<le> pointer_force f b \<and>
         pointer_distance f (interact f b) = (1 + pointer_force f b) * pointer_distance f b \<and>
         pointer_distance f b \<le> pointer_distance f (interact f b)"
proof -
  have k: "0 \<le> pointer_force f b" using assms(2,3) by (rule pointer_force_nonneg)
  have d: "pointer_distance f (interact f b) = (1 + pointer_force f b) * pointer_distance f b"
    using pointer_distance_interact [OF assms(1,2)] k by simp
  have "1 * pointer_distance f b \<le> (1 + pointer_force f b) * pointer_distance f b"
    using k pointer_distance_nonneg[of f b] by (intro mult_right_mono) simp_all
  then have "pointer_distance f b \<le> pointer_distance f (interact f b)" using d by simp
  with k d interact_near [OF assms(1,2)] show ?thesis by simp
qed


theorem pointer_pushes_away_witness:
  "active (mouse pointer_field) \<and>
   pointer_distance pointer_field (bubble_at 90 0 10) < 180 * dpr pointer_field \<and>
   0 \<le> interactiveForce (options pointer_field) \<and>
   x (interact pointer_field (bubble_at 90 0 10)) = 954 / 10 \<and>
   pointer_distance pointer_field (interact pointer_field (bubble_at 90 0 10)) = 954 / 10"
  using pointer_pushes_away [of pointer_field "bubble_at 90 0 10"]
  by (simp add: pointer_distance_def pointer_force_def pointer_field_def quiet_field_def
      bubble_at_def default_options_def hypot_zero_right)


text \<open>
  The claim C1 as it is stated says that after the interaction step the bubble is no
  farther from the pointer than before. With the default options and the pointer at the
  origin, a bubble at distance 90 ends at distance 95.4.
\<close>

theorem pointer_attraction_counterexample:
  "active (mouse pointer_field) \<and>
   pointer_distance pointer_field (bubble_at 90 0 10) < 180 * dpr pointer_field \<and>
   \<not> pointer_distance pointer_field (interact pointer_field (bubble_at 90 0 10))
       \<le> pointer_distance pointer_field (bubble_at 90 0 10)"
  by (simp add: pointer_distance_def interact_def pointer_field_def quiet_field_def
      bubble_at_def default_options_def hypot_zero_right)


subsection \<open>C2: displacement against distance\<close>

text \<open>
  Claim C2, as the code has it. Take two bubbles within \<open>180 * dpr\<close> of an active
  pointer, the first closer than the second, and a positive \<open>interactiveForce\<close>. The
  factor \<open>force\<close> of the closer bubble is strictly larger. The length of the displacement
  is \<open>force * distance\<close>, and the closer bubble's displacement is at least the farther
  one's exactly when the two distances add up to at least \<open>180 * dpr\<close>; the two
  displacements are equal exactly when the distances add up to \<open>180 * dpr\<close>.
\<close>

theorem pointer_force_monotone:
  assumes "active (mouse f)" "0 < interactiveForce (options f)"
    and "pointer_distance f b1 < pointer_distance f b2"
    and "pointer_distance f b2 < 180 * dpr f"
  shows "pointer_force f b2 < pointer_force f b1 \<and>
         pointer_displacement f b1 = pointer_force f b1 * pointer_distance f b1 \<and>
         pointer_displacement f b2 = pointer_force f b2 * pointer_distance f b2 \<and>
         ((pointer_displacement f b2 \<le> pointer_displacement f b1) =
            (180 * dpr f \<le> pointer_distance f b1 + pointer_distance f b2)) \<and>
         ((pointer_displacement f b1 = pointer_displacement f b2) =
            (pointer_distance f b1 + pointer_distance f b2 = 180 * dpr f))"
proof -
  let ?R = "180 * dpr f" and ?F = "interactiveForce (options f)"
  let ?d1 = "pointer_distance f b1" and ?d2 = "pointer_distance f b2"
  have near1: "?d1 < ?R" using assms(3,4) by simp
  have R: "0 < ?R" using near1 pointer_distance_nonneg[of f b1] by linarith
  have F: "0 \<le> ?F" using assms(2) by simp
  have "?d1 / ?R < ?d2 / ?R" using assms(3) R by (simp add: divide_strict_right_mono)
  then have force: "pointer_force f b2 < pointer_force f b1"
    using assms(2) by (simp add: pointer_force_def)
  have m1: "pointer_displacement f b1 = pointer_force f b1 * ?d1"
    using pointer_displacement_near [OF assms(1) near1] pointer_force_nonneg [OF near1 F]
    by simp
  have m2: "pointer_displacement f b2 = pointer_force f b2 * ?d2"
    using pointer_displacement_near [OF assms(1,4)] pointer_force_nonneg [OF assms(4) F]
    by simp
  have "(pointer_displacement f b2 \<le> pointer_displacement f b1) = (?R \<le> ?d1 + ?d2)"
    unfolding m1 m2 pointer_force_def by (rule displacement_order(1) [OF R assms(2,3)])
  moreover have "(pointer_displacement f b1 = pointer_displacement f b2) = (?d1 + ?d2 = ?R)"
    unfolding m1 m2 pointer_force_def by (rule displacement_order(2) [OF R assms(2,3)])
  ultimately show ?thesis using force m1 m2 by simp
qed


theorem pointer_force_monotone_witness:
  "active (mouse pointer_field) \<and> 0 < interactiveForce (options pointer_field) \<and>
   pointer_distance pointer_field (bubble_at 60 0 10)
     < pointer_distance pointer_field (bubble_at 120 0 10) \<and>
   pointer_distance pointer_field (bubble_at 120 0 10) < 180 * dpr pointer_field \<and>
   pointer_force pointer_field (bubble_at 120 0 10)
     < pointer_force pointer_field (bubble_at 60 0 10) \<and>
   pointer_displacement pointer_field (bubble_at 60 0 10)
     = pointer_displacement pointer_field (bubble_at 120 0 10)"
  using pointer_force_monotone [of pointer_field "bubble_at 60 0 10" "bubble_at 120 0 10"]
  by (simp add: pointer_distance_def pointer_field_def quiet_field_def
      bubble_at_def default_options_def hypot_zero_right)


text \<open>
  The claim C2 as it is stated says that the closer bubble is displaced at least as far
  as the farther one. With the default options and the pointer at the origin, the bubble
  at distance 30 moves by 3 and the bubble at distance 90 by 5.4.
\<close>

theorem pointer_displacement_counterexample:
  "active (mouse pointer_field) \<and>
   pointer_distance pointer_field (bubble_at 30 0 10)
     < pointer_distance pointer_field (bubble_at 90 0 10) \<and>
   pointer_distance pointer_field (bubble_at 90 0 10) < 180 * dpr pointer_field \<and>
   \<not> pointer_displacement pointer_field (bubble_at 90 0 10)
       \<le> pointer_displacement pointer_field (bubble_at 30 0 10)"
  by (simp add: pointer_distance_def pointer_displacement_def interact_def pointer_field_def
      quiet_field_def bubble_at_def default_options_def hypot_zero_right)


subsection \<open>C6: the horizontal wrap\<close>

text \<open>
  Claim C6, as the code has it. Take a tick in which the bubble is not recycled: the
  movement step leaves it with \<open>y + r \<ge> 0\<close>, so that the wrap check sees the position
  that the movement step has left. If that position has \<open>x - r\<close> beyond the canvas
  width (in particular \<open>x = width + r + 1\<close>), the wrap check puts the bubble at exactly
  \<open>- r\<close>; if it has \<open>x + r < 0\<close>, on a canvas whose width and a bubble whose radius
  are not negative, the wrap check puts it at exactly \<open>width + r\<close>. Without pointer
  that is the position at the end of the tick.
\<close>

theorem horizontal_wrap_exact:
  assumes "b1 = move f t br (breathe br b)" "\<not> y b1 + r b1 < 0"
    and "b2 = wrap f (fst (recycle g f (b1, n)))"
    and "b' = fst (frame_bubble g f t br (b, n))"
  shows "(canvas_width f < x b1 - r b1 \<longrightarrow> x b2 = - r b1) \<and>
         (x b1 = canvas_width f + r b1 + 1 \<longrightarrow> x b2 = - r b1) \<and>
         (0 \<le> r b1 \<and> 0 \<le> canvas_width f \<and> x b1 + r b1 < 0
            \<longrightarrow> x b2 = canvas_width f + r b1) \<and>
         r b2 = r b1 \<and> b' = interact f b2 \<and>
         (\<not> active (mouse f) \<and> canvas_width f < x b1 - r b1 \<longrightarrow> x b' = - r b') \<and>
         (\<not> active (mouse f) \<and> 0 \<le> r b1 \<and> 0 \<le> canvas_width f \<and> x b1 + r b1 < 0
            \<longrightarrow> x b' = canvas_width f + r b')"
proof -
  have kept: "fst (recycle g f (b1, n)) = b1"
    using assms(2) by (simp add: recycle_def)
  then have b2: "b2 = wrap f b1" by (simp add: assms(3))
  have right: "x b2 = - r b1" if "canvas_width f < x b1 - r b1"
    using that by (simp add: b2 wrap_def)
  have left: "x b2 = canvas_width f + r b1"
    if "0 \<le> r b1" "0 \<le> canvas_width f" "x b1 + r b1 < 0"
    using that by (simp add: b2 wrap_def)
  have rad: "r b2 = r b1" by (simp add: b2)
  have tick: "b' = interact f b2"
    by (simp add: assms(1,3,4) frame_bubble_fst)
  have quiet: "b' = b2" if "\<not> active (mouse f)"
    using that by (simp add: tick interact_inactive)
  show ?thesis using right left rad tick quiet by auto
qed

theorem horizontal_wrap_exact_witness:
  "\<not> y (move quiet_field 0 (1 / 2) (breathe (1 / 2) (bubble_at 111 50 10)))
       + r (move quiet_field 0 (1 / 2) (breathe (1 / 2) (bubble_at 111 50 10))) < 0 \<and>
   x (move quiet_field 0 (1 / 2) (breathe (1 / 2) (bubble_at 111 50 10)))
     = canvas_width quiet_field
       + r (move quiet_field 0 (1 / 2) (breathe (1 / 2) (bubble_at 111 50 10))) + 1 \<and>
   \<not> active (mouse quiet_field) \<and>
   x (fst (frame_bubble zero_random quiet_field 0 (1 / 2) (bubble_at 111 50 10, 0))) = - 10 \<and>
   \<not> y (move quiet_field 0 (1 / 2) (breathe (1 / 2) (bubble_at (- 11) 50 10)))
       + r (move quiet_field 0 (1 / 2) (breathe (1 / 2) (bubble_at (- 11) 50 10))) < 0 \<and>
   0 \<le> canvas_width quiet_field \<and>
   x (move quiet_field 0 (1 / 2) (breathe (1 / 2) (bubble_at (- 11) 50 10)))
     + r (move quiet_field 0 (1 / 2) (breathe (1 / 2) (bubble_at (- 11) 50 10))) < 0 \<and>
   x (fst (frame_bubble zero_random quiet_field 0 (1 / 2) (bubble_at (- 11) 50 10, 0))) = 110"
  using horizontal_wrap_exact
      [where f = quiet_field and t = 0 and br = "1 / 2" and g = zero_random and n = 0
         and b = "bubble_at 111 50 10", OF refl _ refl refl]
    horizontal_wrap_exact
      [where f = quiet_field and t = 0 and br = "1 / 2" and g = zero_random and n = 0
         and b = "bubble_at (- 11) 50 10", OF refl _ refl refl]
  by (simp add: quiet_field_def bubble_at_def default_options_def breathe_def move_def
      frame_bubble_def recycle_def wrap_def interact_def Let_def)

text \<open>
  The claim C6 as it is stated speaks of every bubble whose \<open>x\<close> exceeds \<open>width + r\<close>
  after the movement step. A bubble that the movement step leaves at
  \<open>x = width + r + 1\<close> and above the top edge is recycled first (lines 96--99): the wrap
  check then sees the new random position, does nothing, and the tick ends with \<open>x\<close> at
  that position and not at \<open>- r\<close>.
\<close>

theorem horizontal_wrap_counterexample:
  "x (move quiet_field 0 (1 / 2) (breathe (1 / 2) (bubble_at 111 (- 11) 10)))
     = canvas_width quiet_field
       + r (move quiet_field 0 (1 / 2) (breathe (1 / 2) (bubble_at 111 (- 11) 10))) + 1 \<and>
   canvas_width quiet_field
     < x (move quiet_field 0 (1 / 2) (breathe (1 / 2) (bubble_at 111 (- 11) 10)))
       - r (move quiet_field 0 (1 / 2) (breathe (1 / 2) (bubble_at 111 (- 11) 10))) \<and>
   \<not> active (mouse quiet_field) \<and>
   x (wrap quiet_field (fst (recycle zero_random quiet_field
        (move quiet_field 0 (1 / 2) (breathe (1 / 2) (bubble_at 111 (- 11) 10)), 0)))) = 0 \<and>
   frame_bubble zero_random quiet_field 0 (1 / 2) (bubble_at 111 (- 11) 10, 0)
     = (bubble_at 0 120 10, 1) \<and>
   x (fst (frame_bubble zero_random quiet_field 0 (1 / 2) (bubble_at 111 (- 11) 10, 0)))
     \<noteq> - r (fst (frame_bubble zero_random quiet_field 0 (1 / 2) (bubble_at 111 (- 11) 10, 0)))"
  by (simp add: quiet_field_def bubble_at_def default_options_def breathe_def move_def
      frame_bubble_def recycle_def wrap_def interact_def zero_random_def Let_def)

subsection \<open>C7: the vertical recycle\<close>

text \<open>
  Claim C7. When the movement of a tick leaves a bubble with \<open>y + r < 0\<close>, the recycle
  sets \<open>y\<close> to \<open>height + 2 r\<close> and \<open>x\<close> to the canvas width times the next value of
  \<open>Math.random()\<close>, which it consumes, and changes nothing else. The whole tick leaves the
  base radius, the hue, both velocities and the wobble seed of the bubble as they were.
  Without pointer, \<open>y\<close> is \<open>height + 2 r\<close> at the end of the tick, and \<open>x\<close> is the
  random position when the random value lies in \<open>[0, 1)\<close>.
\<close>

theorem recycle_preserves_identity:
  assumes "b1 = move f t br (breathe br b)" "y b1 + r b1 < 0"
    and "b' = fst (frame_bubble g f t br (b, n))"
  shows "recycle g f (b1, n)
           = (b1\<lparr>y := canvas_height f + r b1 * 2, x := g n * canvas_width f\<rparr>, Suc n) \<and>
         snd (frame_bubble g f t br (b, n)) = Suc n \<and>
         baseR b' = baseR b \<and> hue b' = hue b \<and> vy b' = vy b \<and> vx b' = vx b \<and>
         wobbleSeed b' = wobbleSeed b \<and>
         (\<not> active (mouse f) \<longrightarrow> y b' = canvas_height f + 2 * r b') \<and>
         (\<not> active (mouse f) \<and> 0 \<le> r b1 \<and> 0 \<le> canvas_width f \<and> 0 \<le> g n \<and> g n < 1
            \<longrightarrow> x b' = g n * canvas_width f)"
proof -
  let ?b2 = "b1\<lparr>y := canvas_height f + r b1 * 2, x := g n * canvas_width f\<rparr>"
  have rec: "recycle g f (b1, n) = (?b2, Suc n)"
    using assms(2) by (simp add: recycle_def)
  have b': "b' = interact f (wrap f ?b2)"
    using rec by (simp add: assms(1,3) frame_bubble_fst)
  have n': "snd (frame_bubble g f t br (b, n)) = Suc n"
    using rec by (simp add: frame_bubble_def assms(1) split_beta)
  have keep: "baseR b' = baseR b \<and> hue b' = hue b \<and> vy b' = vy b \<and> vx b' = vx b \<and>
      wobbleSeed b' = wobbleSeed b"
    by (simp add: assms(3) frame_bubble_fields)
  have yb: "y b' = canvas_height f + 2 * r b'" if "\<not> active (mouse f)"
    using that by (simp add: b' interact_inactive)
  have xb: "x b' = g n * canvas_width f"
    if "\<not> active (mouse f)" "0 \<le> r b1" "0 \<le> canvas_width f" "0 \<le> g n" "g n < 1"
  proof -
    have "g n * canvas_width f \<le> 1 * canvas_width f"
      using that by (intro mult_right_mono) simp_all
    moreover have "0 \<le> g n * canvas_width f" using that by simp
    ultimately have "wrap f ?b2 = ?b2" using that(2) by (simp add: wrap_def)
    then show ?thesis using that(1) by (simp add: b' interact_inactive)
  qed
  show ?thesis using rec n' keep yb xb by blast
qed


theorem recycle_preserves_identity_witness:
  "y (move quiet_field 0 (1 / 2) (breathe (1 / 2) (bubble_at 50 (- 11) 10)))
     + r (move quiet_field 0 (1 / 2) (breathe (1 / 2) (bubble_at 50 (- 11) 10))) < 0 \<and>
   frame_bubble zero_random quiet_field 0 (1 / 2) (bubble_at 50 (- 11) 10, 3)
     = (bubble_at 0 120 10, 4)"
  using recycle_preserves_identity [of
      "move quiet_field 0 (1 / 2) (breathe (1 / 2) (bubble_at 50 (- 11) 10))"
      quiet_field 0 "1 / 2" "bubble_at 50 (- 11) 10"
      "fst (frame_bubble zero_random quiet_field 0 (1 / 2) (bubble_at 50 (- 11) 10, 3))"
      zero_random 3]
  by (simp add: quiet_field_def bubble_at_def default_options_def breathe_def move_def
      frame_bubble_def recycle_def wrap_def interact_def zero_random_def Let_def)


subsection \<open>C10: containment without pointer\<close>

text \<open>
  Claim C10. With no pointer active, a canvas whose width and height are not negative
  and base radii that are not negative, every bubble satisfies after the update
  \<open>- r \<le> x \<le> width + r\<close> and \<open>- r \<le> y\<close>, wherever it was before. The tick applies the
  recycle check before the wrap check, and of the two wrap conditions at most one holds.
\<close>

theorem containment_without_pointer:
  assumes "\<not> active (mouse f)" "0 \<le> canvas_width f" "0 \<le> canvas_height f"
    and "breath t (breathingPeriod (options f)) = Some br"
    and "\<forall>b \<in> set (bubbles f). 0 \<le> baseR b"
  shows "(\<forall>b' \<in> set (bubbles (frame_update g t br f)).
            - r b' \<le> x b' \<and> x b' \<le> canvas_width f + r b' \<and> - r b' \<le> y b') \<and>
         (\<forall>b n. fst (frame_bubble g f t br (b, n))
                  = wrap f (fst (recycle g f (move f t br (breathe br b), n)))) \<and>
         (\<forall>b. 0 \<le> r b \<longrightarrow> \<not> (canvas_width f < x b - r b \<and> x b + r b < 0))"
proof (intro conjI ballI allI impI)
  fix b'
  assume "b' \<in> set (bubbles (frame_update g t br f))"
  with list_all2_right_member [OF frame_update_rel [of g f t br]]
  obtain b n where "b \<in> set (bubbles f)" "b' = fst (frame_bubble g f t br (b, n))"
    by blast
  moreover have "0 \<le> br" using assms(4) breath_range by blast
  ultimately have "- r b' \<le> x b' \<and> x b' \<le> canvas_width f + r b' \<and> - r b' \<le> y b'"
    using assms(1,2,3,5) by (intro frame_bubble_contained [of f br b b' g t n]) auto
  then show "- r b' \<le> x b'" "x b' \<le> canvas_width f + r b'" "- r b' \<le> y b'"
    by simp_all
next
  fix b n
  show "fst (frame_bubble g f t br (b, n))
          = wrap f (fst (recycle g f (move f t br (breathe br b), n)))"
    using assms(1) by (simp add: frame_bubble_fst interact_inactive)
next
  fix b
  assume "0 \<le> r b"
  then show "\<not> (canvas_width f < x b - r b \<and> x b + r b < 0)"
    using assms(2) by simp
qed

theorem containment_without_pointer_witness:
  "\<not> active (mouse (quiet_field\<lparr>bubbles := [bubble_at 500 (- 70) 10]\<rparr>)) \<and>
   0 \<le> canvas_width (quiet_field\<lparr>bubbles := [bubble_at 500 (- 70) 10]\<rparr>) \<and>
   0 \<le> canvas_height (quiet_field\<lparr>bubbles := [bubble_at 500 (- 70) 10]\<rparr>) \<and>
   breath 0 (breathingPeriod (options (quiet_field\<lparr>bubbles := [bubble_at 500 (- 70) 10]\<rparr>)))
     = Some (1 / 2) \<and>
   0 \<le> baseR (bubble_at 500 (- 70) 10) \<and>
   bubbles (frame_update zero_random 0 (1 / 2)
              (quiet_field\<lparr>bubbles := [bubble_at 500 (- 70) 10]\<rparr>))
     = [bubble_at 0 120 10]"
  using containment_without_pointer
      [of "quiet_field\<lparr>bubbles := [bubble_at 500 (- 70) 10]\<rparr>" 0 "1 / 2" zero_random]
  by (simp add: example_defs frame_defs)


subsection \<open>C8: the number of bubbles\<close>

text \<open>
  Claim C8. After construction with a \<open>bubbleCount\<close> that is a natural number \<open>k\<close> the
  field has \<open>k\<close> bubbles. The update loop keeps the number of bubbles, and so does every
  sequence of events that ends without exception. With \<open>bubbleCount \<le> 0\<close> the field has
  no bubble; a frame on a field without bubbles clears the canvas, draws nothing else,
  raises nothing and leaves the field as it was, and every sequence of events on it ends
  without exception and without bubbles.
\<close>

theorem bubble_count_constant:
  "(bubbleCount (Object_assign default_options opts) = real k
      \<longrightarrow> length (bubbles (new_BreathBubbles g d w h start opts)) = k) \<and>
   length (bubbles (frame_update g t br f)) = length (bubbles f) \<and>
   (run g es f = Inr f' \<longrightarrow> length (bubbles f') = length (bubbles f)) \<and>
   (bubbleCount (Object_assign default_options opts) \<le> 0
      \<longrightarrow> bubbles (new_BreathBubbles g d w h start opts) = []) \<and>
   (bubbles f = []
      \<longrightarrow> frame g now f = Inr (f, [ClearRect 0 0 (canvas_width f) (canvas_height f)]) \<and>
          (\<exists>f'. run g es f = Inr f' \<and> bubbles f' = []))"
proof (intro conjI impI)
  assume "bubbleCount (Object_assign default_options opts) = real k"
  then show "length (bubbles (new_BreathBubbles g d w h start opts)) = k"
    by (simp add: new_length)
next
  show "length (bubbles (frame_update g t br f)) = length (bubbles f)"
    by (rule frame_update_length)
next
  assume "run g es f = Inr f'"
  then show "length (bubbles f') = length (bubbles f)" by (rule run_length)
next
  assume "bubbleCount (Object_assign default_options opts) \<le> 0"
  then have "nat \<lceil>bubbleCount (Object_assign default_options opts)\<rceil> = 0" 
    by (simp add: ceiling_le_zero)
  then show "bubbles (new_BreathBubbles g d w h start opts) = []"
    using new_length [of g d w h start opts] by simp
next
  assume "bubbles f = []"
  then show "frame g now f = Inr (f, [ClearRect 0 0 (canvas_width f) (canvas_height f)])"
    by (rule frame_empty)
next
  assume "bubbles f = []"
  then show "\<exists>f'. run g es f = Inr f' \<and> bubbles f' = []" by (rule run_empty)
qed


theorem bubble_count_constant_witness:
  "bubbleCount (Object_assign default_options [BubbleCount 2]) = real 2 \<and>
   length (bubbles (new_BreathBubbles zero_random None 100 100 0 [BubbleCount 2])) = 2 \<and>
   run zero_random [Resize 50 50, Frame 0, VisibilityChange True 7]
     (quiet_field\<lparr>bubbles := [bubble_at 50 50 10, bubble_at 60 50 10]\<rparr>)
   = Inr (quiet_field\<lparr>bubbles := [bubble_at 50 (4988 / 100) 10, bubble_at 60 (4988 / 100) 10],
            canvas_width := 50, canvas_height := 50, t0 := 7\<rparr>) \<and>
   bubbleCount (Object_assign default_options [BubbleCount 0]) \<le> 0 \<and>
   bubbles (new_BreathBubbles zero_random None 100 100 0 [BubbleCount 0]) = [] \<and>
   frame zero_random 16 (new_BreathBubbles zero_random None 100 100 0 [BubbleCount 0])
   = Inr (new_BreathBubbles zero_random None 100 100 0 [BubbleCount 0],
          [ClearRect 0 0 100 100])"
  using bubble_count_constant
      [where opts = "[BubbleCount 2]" and k = 2 and g = zero_random and d = None
         and w = 100 and h = 100 and start = 0
         and es = "[Resize 50 50, Frame 0, VisibilityChange True 7]"
         and f = "quiet_field\<lparr>bubbles := [bubble_at 50 50 10, bubble_at 60 50 10]\<rparr>"
         and f' = "quiet_field\<lparr>bubbles :=
                       [bubble_at 50 (4988 / 100) 10, bubble_at 60 (4988 / 100) 10],
                     canvas_width := 50, canvas_height := 50, t0 := 7\<rparr>"]
    bubble_count_constant
      [where opts = "[BubbleCount 0]" and g = zero_random and d = None
         and w = 100 and h = 100 and start = 0 and now = 16
         and f = "new_BreathBubbles zero_random None 100 100 0 [BubbleCount 0]"]
  by (simp add: example_defs frame_defs resize_def Object_assign_def hypot_zero_right
      new_BreathBubbles_def init_def device_pixel_ratio_def)


subsection \<open>C9: construction does not validate\<close>

text \<open>
  Claim C9, as the code has it. The constructor rejects and clamps nothing: the field it
  returns holds the caller's options over the defaults as they were given, and
  \<open>\<lceil>bubbleCount\<rceil>\<close> bubbles, none when \<open>bubbleCount \<le> 0\<close>. With an inverted radius
  range and random values in \<open>[0, 1)\<close>, every base radius lies above \<open>maxRadius\<close> and
  at most at \<open>minRadius\<close>.
\<close>

theorem construction_accepts_every_configuration:
  assumes "c = Object_assign default_options opts"
    and "f = new_BreathBubbles g d w h now opts"
  shows "options f = c \<and>
         length (bubbles f) = nat \<lceil>bubbleCount c\<rceil> \<and>
         (bubbleCount c \<le> 0 \<longrightarrow> bubbles f = []) \<and>
         (maxRadius c < minRadius c \<and> (\<forall>n. 0 \<le> g n \<and> g n < 1)
            \<longrightarrow> (\<forall>b \<in> set (bubbles f). maxRadius c < baseR b \<and> baseR b \<le> minRadius c))"
proof (intro conjI impI)
  show "options f = c" by (simp add: assms)
  show len: "length (bubbles f) = nat \<lceil>bubbleCount c\<rceil>" by (simp add: assms new_length)
  show "bubbles f = []" if "bubbleCount c \<le> 0"
  proof -
    from that have "nat \<lceil>bubbleCount c\<rceil> = 0" by (simp add: ceiling_le_zero)
    with len show ?thesis by simp
  qed
  show "\<forall>b \<in> set (bubbles f). maxRadius c < baseR b \<and> baseR b \<le> minRadius c"
    if "maxRadius c < minRadius c \<and> (\<forall>n. 0 \<le> g n \<and> g n < 1)"
    unfolding assms(2)
  proof (rule new_radius [where P' = "\<lambda>v. maxRadius c < v \<and> v \<le> minRadius c"])
    fix u
    show "maxRadius c < rand (g u) (minRadius (Object_assign default_options opts))
              (maxRadius (Object_assign default_options opts)) \<and>
          rand (g u) (minRadius (Object_assign default_options opts))
              (maxRadius (Object_assign default_options opts)) \<le> minRadius c"
      using that rand_inverted [of "maxRadius c" "minRadius c" "g u"] by (simp add: assms(1))
  qed simp
qed


theorem construction_accepts_every_configuration_witness:
  "maxRadius (Object_assign default_options [BubbleCount 1, MinRadius 64, MaxRadius 14])
     < minRadius (Object_assign default_options [BubbleCount 1, MinRadius 64, MaxRadius 14]) \<and>
   (\<forall>n. 0 \<le> zero_random n \<and> zero_random n < 1) \<and>
   map baseR (bubbles (new_BreathBubbles zero_random None 100 100 0
                         [BubbleCount 1, MinRadius 64, MaxRadius 14])) = [64] \<and>
   bubbleCount (Object_assign default_options [BubbleCount (- 3)]) \<le> 0 \<and>
   bubbles (new_BreathBubbles zero_random None 100 100 0 [BubbleCount (- 3)]) = []"
  using construction_accepts_every_configuration
      [where opts = "[BubbleCount 1, MinRadius 64, MaxRadius 14]" and g = zero_random
         and d = None and w = 100 and h = 100 and now = 0, OF refl refl]
    construction_accepts_every_configuration
      [where opts = "[BubbleCount (- 3)]" and g = zero_random
         and d = None and w = 100 and h = 100 and now = 0, OF refl refl]
  by (simp add: new_BreathBubbles_def init_def resize_def Object_assign_def makeBubble_def
      rand_def zero_random_def Let_def)


text \<open>
  The claim C9 as it is stated says that construction rejects a particle count that is
  not positive and an inverted radius range, so that no field would hold such a
  configuration. The constructor returns a field with the count 0 and the radius range
  from 64 down to 14, and a frame on that field runs.
\<close>

theorem construction_validation_counterexample:
  "\<not> spec_valid_configuration
       (options (new_BreathBubbles zero_random None 100 100 0
                   [BubbleCount 0, MinRadius 64, MaxRadius 14])) \<and>
   bubbles (new_BreathBubbles zero_random None 100 100 0
              [BubbleCount 0, MinRadius 64, MaxRadius 14]) = [] \<and>
   frame zero_random 16
     (new_BreathBubbles zero_random None 100 100 0 [BubbleCount 0, MinRadius 64, MaxRadius 14])
   = Inr (new_BreathBubbles zero_random None 100 100 0
            [BubbleCount 0, MinRadius 64, MaxRadius 14],
          [ClearRect 0 0 100 100])"
  by (simp add: new_BreathBubbles_def init_def resize_def Object_assign_def
      device_pixel_ratio_def spec_valid_configuration_def frame_def frame_update_def
      frame_render_def breath_def default_options_def Let_def)

end
